theory Spec2Isabelle
  imports Main "HOL-Library.Sublist"
begin

section \<open>Strings and regular expressions of the scanner router\<close>

text \<open>
  The program is \<^verbatim>\<open>src/index.js\<close>. A JavaScript string is modelled as a \<^typ>\<open>string\<close>:
  a list of code units, restricted to the code points U+0000 .. U+00FF that a
  \<^typ>\<open>char\<close> can hold. The regular expressions of the source are written out as the list
  predicates they decide on such strings.
\<close>

text \<open>\<^verbatim>\<open>\d\<close>: the ten ASCII digits.\<close>

definition isDigit :: "char \<Rightarrow> bool" where
  "isDigit c = (c \<in> set ''0123456789'')"

text \<open>
  \<^verbatim>\<open>[A-Z0-9._-]\<close> under the \<^verbatim>\<open>i\<close> flag: the class and its lower-case letters. Without the
  \<^verbatim>\<open>u\<close> flag no character above U+007F is canonicalised to an ASCII letter.
\<close>

definition isCodeChar :: "char \<Rightarrow> bool" where
  "isCodeChar c =
     (c \<in> set ''ABCDEFGHIJKLMNOPQRSTUVWXYZabcdefghijklmnopqrstuvwxyz0123456789._-'')"

text \<open>
  What \<^verbatim>\<open>String.prototype.trim\<close> strips: WhiteSpace and LineTerminator, of which TAB, LF, VT,
  FF, CR, SPACE and NBSP lie below U+0100.
\<close>

definition isSpace :: "char \<Rightarrow> bool" where
  "isSpace c = (c \<in> set [CHR 0x09, CHR 0x0A, CHR 0x0B, CHR 0x0C, CHR 0x0D, CHR 0x20, CHR 0xA0])"

definition trim :: "string \<Rightarrow> string" where
  "trim s = rev (dropWhile isSpace (rev (dropWhile isSpace s)))"

text \<open>Case folding of the ASCII letters, for the patterns matched with the \<^verbatim>\<open>i\<close> flag.\<close>

definition lowerAscii :: "char \<Rightarrow> char" where
  "lowerAscii c =
     (case map_of (zip ''ABCDEFGHIJKLMNOPQRSTUVWXYZ'' ''abcdefghijklmnopqrstuvwxyz'') c of
        Some d \<Rightarrow> d
      | None \<Rightarrow> c)"

text \<open>The literal \<open>p\<close> (given in lower case) matches at the start of \<open>s\<close>, ignoring case.\<close>

definition startsWithCI :: "string \<Rightarrow> string \<Rightarrow> bool" where
  "startsWithCI p s = (length p \<le> length s \<and> map lowerAscii (take (length p) s) = p)"

subsection \<open>Code classifier\<close>

text \<open>\<^verbatim>\<open>/^\d{8}$|^\d{12,14}$/.test(s.trim())\<close>\<close>

definition isEAN :: "string \<Rightarrow> bool" where
  "isEAN s =
     (let t = trim s
      in list_all isDigit t \<and> (length t = 8 \<or> (12 \<le> length t \<and> length t \<le> 14)))"

text \<open>\<^verbatim>\<open>/^\d{6,8}$/.test(s.trim())\<close>\<close>

definition isModel :: "string \<Rightarrow> bool" where
  "isModel s = (let t = trim s in list_all isDigit t \<and> 6 \<le> length t \<and> length t \<le> 8)"

text \<open>\<^verbatim>\<open>/^[A-Z0-9._-]{5,}$/i.test(s.trim())\<close>\<close>

definition isSKU :: "string \<Rightarrow> bool" where
  "isSKU s = (let t = trim s in list_all isCodeChar t \<and> 5 \<le> length t)"

text \<open>\<^verbatim>\<open>/^https?:\/\//i.test(s.trim())\<close>\<close>

definition isURL :: "string \<Rightarrow> bool" where
  "isURL s = (let t = trim s in startsWithCI ''http://'' t \<or> startsWithCI ''https://'' t)"

section \<open>Candidate extractor\<close>

text \<open>
  A JSON value as JavaScript holds it after \<^verbatim>\<open>r.json()\<close>. A number is kept as an integer:
  the program only tests whether it is zero.
\<close>

datatype jsval =
  JNull | JBool bool | JNum int | JStr string | JArr "jsval list" | JObj "(string \<times> jsval) list"

text \<open>
  The truthiness that \<^verbatim>\<open>if (x)\<close> tests: \<^verbatim>\<open>null\<close>, \<^verbatim>\<open>false\<close>, \<^verbatim>\<open>0\<close> and the empty
  string are falsy, every array and object is truthy.
\<close>

fun truthy :: "jsval \<Rightarrow> bool" where
  "truthy JNull = False"
| "truthy (JBool b) = b"
| "truthy (JNum n) = (n \<noteq> 0)"
| "truthy (JStr s) = (s \<noteq> [])"
| "truthy (JArr xs) = True"
| "truthy (JObj kvs) = True"

text \<open>
  The exceptions of the program: the \<^verbatim>\<open>TypeError\<close> of \<^verbatim>\<open>new URL\<close> on an invalid URL and of a
  property read on \<^verbatim>\<open>undefined\<close>, the rejection of \<^verbatim>\<open>fetch\<close> or of \<^verbatim>\<open>r.json()\<close>, and the
  \<^verbatim>\<open>Error\<close> that \<^verbatim>\<open>adminGQL\<close> throws with the upstream's errors.
\<close>

datatype error = TypeError | FetchError | UpstreamErrors jsval

text \<open>
  What the extractor reads of a parsed \<^verbatim>\<open>URL\<close> object: the decoded query parameters in
  order, the path and the fragment (with its leading \<^verbatim>\<open>#\<close>, or empty).
\<close>

record url =
  searchParams :: "(string \<times> string) list"
  pathname :: string
  hash :: string

text \<open>
  \<^verbatim>\<open>new URL(s)\<close> is the platform's WHATWG parser, not code of the repository: the extractor
  takes it as the parameter \<open>newURL\<close>, which returns the parsed URL or the exception thrown.
\<close>

type_synonym url_parser = "string \<Rightarrow> error + url"

text \<open>\<^verbatim>\<open>out.add(x)\<close> on a \<^verbatim>\<open>Set\<close>, which keeps insertion order and the first occurrence.\<close>

definition add :: "string \<Rightarrow> string list \<Rightarrow> string list" where
  "add x out = (if x \<in> set out then out else out @ [x])"

text \<open>\<^verbatim>\<open>str.split(d)\<close> for a one-character separator: never empty, \<^verbatim>\<open>"".split("/")\<close> is \<^verbatim>\<open>[""]\<close>.\<close>

fun split :: "char \<Rightarrow> string \<Rightarrow> string list" where
  "split d [] = ['''']"
| "split d (c # cs) =
     (if c = d then [] # split d cs
      else (case split d cs of
              [] \<Rightarrow> [c # '''']
            | w # ws \<Rightarrow> (c # w) # ws))"

text \<open>\<^verbatim>\<open>arr.pop()\<close>: the last element, \<^verbatim>\<open>undefined\<close> on an empty array.\<close>

definition pop :: "'a list \<Rightarrow> 'a option" where
  "pop xs = (case rev xs of [] \<Rightarrow> None | x # _ \<Rightarrow> Some x)"

definition candKeys :: "string list" where
  "candKeys = [''ean'', ''gtin'', ''barcode'', ''sku'', ''model'', ''code'', ''id'']"

text \<open>
  Step 1 of the try block: \<^verbatim>\<open>u.searchParams.get(k)\<close> is the first value of the name \<open>k\<close> or
  \<^verbatim>\<open>null\<close>; a value is added, trimmed, when it is truthy (not \<^verbatim>\<open>null\<close> and not empty).
\<close>

definition addParam :: "url \<Rightarrow> string list \<Rightarrow> string \<Rightarrow> string list" where
  "addParam u out k =
     (case map_of (searchParams u) k of
        None \<Rightarrow> out
      | Some v \<Rightarrow> if v \<noteq> [] then add (trim v) out else out)"

text \<open>Step 2: the last non-empty segment of the path, when it matches \<^verbatim>\<open>/^[A-Z0-9._-]+$/i\<close>.\<close>

definition addLastSegment :: "url \<Rightarrow> string list \<Rightarrow> string list" where
  "addLastSegment u out =
     (let segs = filter (\<lambda>w. w \<noteq> []) (split (CHR ''/'') (pathname u))
      in case pop segs of
           None \<Rightarrow> out
         | Some seg \<Rightarrow> if seg \<noteq> [] \<and> list_all isCodeChar seg then add seg out else out)"

text \<open>
  Step 3: \<^verbatim>\<open>frag.match(/(ean|gtin|barcode|sku|model|code)=([A-Z0-9._-]+)/i)\<close>. The match
  at one position tries the alternatives in order, then \<^verbatim>\<open>=\<close>, then the longest run of code
  characters, which must not be empty; the search takes the leftmost position that matches.
  The result is the second group.
\<close>

definition fragKeys :: "string list" where
  "fragKeys = [''ean'', ''gtin'', ''barcode'', ''sku'', ''model'', ''code'']"

definition matchKeyAt :: "string \<Rightarrow> string \<Rightarrow> string option" where
  "matchKeyAt s k =
     (if startsWithCI k s then
        (case drop (length k) s of
           [] \<Rightarrow> None
         | c # rest \<Rightarrow>
             if c = CHR ''='' \<and> takeWhile isCodeChar rest \<noteq> []
             then Some (takeWhile isCodeChar rest) else None)
      else None)"

fun firstSome :: "('a \<Rightarrow> 'b option) \<Rightarrow> 'a list \<Rightarrow> 'b option" where
  "firstSome f [] = None"
| "firstSome f (x # xs) = (case f x of Some y \<Rightarrow> Some y | None \<Rightarrow> firstSome f xs)"

fun fragMatch :: "string \<Rightarrow> string option" where
  "fragMatch [] = None"
| "fragMatch (c # cs) =
     (case firstSome (matchKeyAt (c # cs)) fragKeys of
        Some v \<Rightarrow> Some v
      | None \<Rightarrow> fragMatch cs)"

text \<open>\<^verbatim>\<open>u.hash.replace(/^#/, "")\<close>\<close>

definition stripHash :: "string \<Rightarrow> string" where
  "stripHash h = (case h of [] \<Rightarrow> [] | c # cs \<Rightarrow> if c = CHR ''#'' then cs else h)"

definition addFragment :: "url \<Rightarrow> string list \<Rightarrow> string list" where
  "addFragment u out =
     (case fragMatch (stripHash (hash u)) of
        None \<Rightarrow> out
      | Some v \<Rightarrow> add v out)"

text \<open>
  The try block: \<^verbatim>\<open>new URL(s)\<close> is its first statement, so when it throws \<open>out\<close> has not
  been touched.
\<close>

definition tryBlock :: "url_parser \<Rightarrow> string \<Rightarrow> string list \<Rightarrow> error + string list" where
  "tryBlock newURL s out =
     (case newURL s of
        Inl e \<Rightarrow> Inl e
      | Inr u \<Rightarrow> Inr (addFragment u (addLastSegment u (foldl (addParam u) out candKeys))))"

text \<open>The comparator's score and the comparator \<^verbatim>\<open>score(b) - score(a)\<close>.\<close>

definition score :: "string \<Rightarrow> int" where
  "score x = (if isEAN x then 3 else if isSKU x then 2 else if isModel x then 1 else 0)"

definition cmp :: "string \<Rightarrow> string \<Rightarrow> int" where
  "cmp a b = score b - score a"

text \<open>
  \<^verbatim>\<open>list.sort(cmp)\<close>: ECMAScript's sort is stable, so with a consistent comparator the
  result is the one of a stable insertion sort: an element is put before the first element
  that it does not have to follow.
\<close>

fun insortBy :: "('a \<Rightarrow> 'a \<Rightarrow> int) \<Rightarrow> 'a \<Rightarrow> 'a list \<Rightarrow> 'a list" where
  "insortBy c x [] = [x]"
| "insortBy c x (y # ys) = (if c x y \<le> 0 then x # y # ys else y # insortBy c x ys)"

definition sortBy :: "('a \<Rightarrow> 'a \<Rightarrow> int) \<Rightarrow> 'a list \<Rightarrow> 'a list" where
  "sortBy c xs = foldr (insortBy c) xs []"

text \<open>
  \<^verbatim>\<open>extractCandidates(raw)\<close>. The argument is \<open>None\<close> for \<^verbatim>\<open>null\<close> or \<^verbatim>\<open>undefined\<close>; the
  result is \<open>Inl\<close> for an exception that leaves the function.
\<close>

definition extractCandidates :: "url_parser \<Rightarrow> string option \<Rightarrow> error + string list" where
  "extractCandidates newURL raw =
     (case raw of
        None \<Rightarrow> Inr []
      | Some r \<Rightarrow>
          if r = [] then Inr []
          else
            let s = trim r;
                out = (if isURL s then
                         (case tryBlock newURL s [] of
                            Inl e \<Rightarrow> []
                          | Inr out' \<Rightarrow> out')
                       else add s [])
            in Inr (sortBy cmp out))"

section \<open>Catalog gateway\<close>

text \<open>The two query documents of the source.\<close>

datatype doc = Q_VARIANT_BY_QUERY | Q_PRODUCTS_BY_QUERY

text \<open>A request: the query document and the value of its variable \<^verbatim>\<open>$q\<close>.\<close>

type_synonym request = "doc \<times> string"

text \<open>
  The fields of the response that the program reads. A variant node: \<^verbatim>\<open>v.id\<close> and
  \<^verbatim>\<open>v?.product?.handle\<close> (\<open>None\<close> when the product or its handle is \<^verbatim>\<open>null\<close>). A product
  node: \<^verbatim>\<open>p.handle\<close> and the ids of the nodes of \<^verbatim>\<open>p.variants.edges\<close>.
\<close>

record variant =
  v_id :: string
  v_product_handle :: "string option"

record product =
  p_handle :: string
  p_variants :: "string list"

text \<open>
  \<^verbatim>\<open>j.data\<close>: an object with the nodes of \<^verbatim>\<open>productVariants.edges\<close> or of
  \<^verbatim>\<open>products.edges\<close>.
\<close>

datatype data = ProductVariants "variant list" | Products "product list"

text \<open>
  The response body when it is not \<^verbatim>\<open>null\<close>: \<^verbatim>\<open>j.errors\<close> is \<open>None\<close> when the field is
  absent (\<^verbatim>\<open>undefined\<close>) and any JSON value otherwise; \<^verbatim>\<open>j.data\<close> is \<open>None\<close> when it is
  absent or \<^verbatim>\<open>null\<close>. A body that is a number, a string, a boolean or an array has neither
  field and is the envelope with both absent.
\<close>

record envelope =
  errors :: "jsval option"
  data :: "data option"

text \<open>
  What one \<^verbatim>\<open>fetch\<close> and \<^verbatim>\<open>r.json()\<close> give: a rejection (the transport failed, or the body
  is not JSON), the body \<^verbatim>\<open>null\<close>, or another body.
\<close>

datatype upstream = Rejected | NullBody | Envelope envelope

text \<open>
  The catalog is outside of the program and may answer the same request differently at
  different times: it is a parameter, a function from its state and the request to the
  answer and its next state.
\<close>

type_synonym 'g gateway = "'g \<Rightarrow> request \<Rightarrow> upstream \<times> 'g"

text \<open>
  The world of a request handler: the state of the catalog and the log of the calls made
  so far, each with what came back, oldest first.
\<close>

type_synonym call = "request \<times> upstream"

type_synonym 'g world = "'g \<times> call list"

text \<open>
  \<^verbatim>\<open>adminGQL(query, variables)\<close>: the read of \<^verbatim>\<open>j.errors\<close> throws a \<^verbatim>\<open>TypeError\<close> on the
  body \<^verbatim>\<open>null\<close>; \<^verbatim>\<open>if (j.errors)\<close> tests the truthiness of the field.
\<close>

definition adminGQL ::
  "'g gateway \<Rightarrow> doc \<Rightarrow> string \<Rightarrow> 'g world \<Rightarrow> (error + data option) \<times> 'g world" where
  "adminGQL gw query qv w =
     (let (up, g') = gw (fst w) (query, qv);
          w' = (g', snd w @ [((query, qv), up)])
      in case up of
           Rejected \<Rightarrow> (Inl FetchError, w')
         | NullBody \<Rightarrow> (Inl TypeError, w')
         | Envelope j \<Rightarrow>
             (case errors j of
                None \<Rightarrow> (Inr (data j), w')
              | Some es \<Rightarrow>
                  if truthy es then (Inl (UpstreamErrors es), w')
                  else (Inr (data j), w')))"

section \<open>Resolver\<close>

record resolution =
  handle :: string
  variantId :: "string option"
  source :: string

text \<open>
  \<^verbatim>\<open>d.productVariants.edges[0]?.node\<close> and \<^verbatim>\<open>d.products.edges[0]?.node\<close>: a
  \<^verbatim>\<open>TypeError\<close> when \<open>d\<close> is \<^verbatim>\<open>undefined\<close> or has no such field.
\<close>

definition firstVariant :: "data option \<Rightarrow> error + variant option" where
  "firstVariant d =
     (case d of
        Some (ProductVariants edges) \<Rightarrow> Inr (case edges of [] \<Rightarrow> None | v # _ \<Rightarrow> Some v)
      | _ \<Rightarrow> Inl TypeError)"

definition firstProduct :: "data option \<Rightarrow> error + product option" where
  "firstProduct d =
     (case d of
        Some (Products edges) \<Rightarrow> Inr (case edges of [] \<Rightarrow> None | p # _ \<Rightarrow> Some p)
      | _ \<Rightarrow> Inl TypeError)"

text \<open>
  \<^verbatim>\<open>if (v?.product?.handle) return { handle: v.product.handle, variantId: v.id, source }\<close>:
  the result when the handle is truthy.
\<close>

definition variantResult :: "variant option \<Rightarrow> string \<Rightarrow> resolution option" where
  "variantResult v src =
     (case v of
        None \<Rightarrow> None
      | Some n \<Rightarrow>
          (case v_product_handle n of
             None \<Rightarrow> None
           | Some h \<Rightarrow>
               if h \<noteq> [] then Some \<lparr>handle = h, variantId = Some (v_id n), source = src\<rparr>
               else None))"

text \<open>
  \<^verbatim>\<open>if (p?.handle) { const vId = p.variants.edges[0]?.node?.id; return { handle: p.handle,
  variantId: vId, source } }\<close>
\<close>

definition productResult :: "product option \<Rightarrow> string \<Rightarrow> resolution option" where
  "productResult p src =
     (case p of
        None \<Rightarrow> None
      | Some n \<Rightarrow>
          if p_handle n \<noteq> []
          then Some \<lparr>handle = p_handle n,
                     variantId = (case p_variants n of [] \<Rightarrow> None | i # _ \<Rightarrow> Some i),
                     source = src\<rparr>
          else None)"

text \<open>The query strings built by the template literals.\<close>

definition barcodeQuery :: "string \<Rightarrow> string" where
  "barcodeQuery c = ''barcode:'' @ c"

definition skuQuery :: "string \<Rightarrow> string" where
  "skuQuery c = ''sku:'' @ c"

definition modelTagQuery :: "string \<Rightarrow> string" where
  "modelTagQuery c = ''tag:'' @ [CHR 0x22] @ ''Model: '' @ c @ [CHR 0x22]"

text \<open>
  \<^verbatim>\<open>resolveHandleFromCode(code)\<close>, one definition for each numbered block of the source,
  the later blocks first: a block returns its match, or falls through to the next one. An
  exception leaves the function at once.
\<close>

definition searchAny ::
  "'g gateway \<Rightarrow> string \<Rightarrow> 'g world \<Rightarrow> (error + resolution option) \<times> 'g world" where
  "searchAny gw c w =
     (case adminGQL gw Q_PRODUCTS_BY_QUERY c w of
        (Inl e, w1) \<Rightarrow> (Inl e, w1)
      | (Inr d, w1) \<Rightarrow>
          (case firstProduct d of
             Inl e \<Rightarrow> (Inl e, w1)
           | Inr p \<Rightarrow>
               (case productResult p ''search:any'' of
                  Some r \<Rightarrow> (Inr (Some r), w1)
                | None \<Rightarrow> (Inr None, w1))))"

definition modelBlock ::
  "'g gateway \<Rightarrow> string \<Rightarrow> 'g world \<Rightarrow> (error + resolution option) \<times> 'g world" where
  "modelBlock gw c w =
     (if isModel c then
        (case adminGQL gw Q_PRODUCTS_BY_QUERY (modelTagQuery c) w of
           (Inl e, w1) \<Rightarrow> (Inl e, w1)
         | (Inr d, w1) \<Rightarrow>
             (case firstProduct d of
                Inl e \<Rightarrow> (Inl e, w1)
              | Inr p \<Rightarrow>
                  (case productResult p ''tag:model'' of
                     Some r \<Rightarrow> (Inr (Some r), w1)
                   | None \<Rightarrow>
                       (case adminGQL gw Q_PRODUCTS_BY_QUERY c w1 of
                          (Inl e, w2) \<Rightarrow> (Inl e, w2)
                        | (Inr d2, w2) \<Rightarrow>
                            (case firstProduct d2 of
                               Inl e \<Rightarrow> (Inl e, w2)
                             | Inr p2 \<Rightarrow>
                                 (case productResult p2 ''search:model'' of
                                    Some r \<Rightarrow> (Inr (Some r), w2)
                                  | None \<Rightarrow> searchAny gw c w2))))))
      else searchAny gw c w)"

definition skuBlock ::
  "'g gateway \<Rightarrow> string \<Rightarrow> 'g world \<Rightarrow> (error + resolution option) \<times> 'g world" where
  "skuBlock gw c w =
     (if isSKU c then
        (case adminGQL gw Q_VARIANT_BY_QUERY (skuQuery c) w of
           (Inl e, w1) \<Rightarrow> (Inl e, w1)
         | (Inr d, w1) \<Rightarrow>
             (case firstVariant d of
                Inl e \<Rightarrow> (Inl e, w1)
              | Inr v \<Rightarrow>
                  (case variantResult v ''sku'' of
                     Some r \<Rightarrow> (Inr (Some r), w1)
                   | None \<Rightarrow> modelBlock gw c w1)))
      else modelBlock gw c w)"

definition barcodeBlock ::
  "'g gateway \<Rightarrow> string \<Rightarrow> 'g world \<Rightarrow> (error + resolution option) \<times> 'g world" where
  "barcodeBlock gw c w =
     (if isEAN c then
        (case adminGQL gw Q_VARIANT_BY_QUERY (barcodeQuery c) w of
           (Inl e, w1) \<Rightarrow> (Inl e, w1)
         | (Inr d, w1) \<Rightarrow>
             (case firstVariant d of
                Inl e \<Rightarrow> (Inl e, w1)
              | Inr v \<Rightarrow>
                  (case variantResult v ''barcode'' of
                     Some r \<Rightarrow> (Inr (Some r), w1)
                   | None \<Rightarrow> skuBlock gw c w1)))
      else skuBlock gw c w)"

definition resolveHandleFromCode ::
  "'g gateway \<Rightarrow> string \<Rightarrow> 'g world \<Rightarrow> (error + resolution option) \<times> 'g world" where
  "resolveHandleFromCode gw code w = barcodeBlock gw (trim code) w"

section \<open>Routes\<close>

text \<open>
  \<^verbatim>\<open>encodeURIComponent\<close> on code points below U+0100: the unreserved characters stay, every
  other character becomes the escaped bytes of its UTF-8 encoding (one byte below U+0080, two
  from there on), in upper-case hexadecimal.
\<close>

definition uriUnreserved :: "char \<Rightarrow> bool" where
  "uriUnreserved c =
     (c \<in> set (''ABCDEFGHIJKLMNOPQRSTUVWXYZabcdefghijklmnopqrstuvwxyz0123456789-_.!~*()''
               @ [CHR 0x27]))"

definition hexDigit :: "nat \<Rightarrow> char" where
  "hexDigit n = ''0123456789ABCDEF'' ! (n mod 16)"

definition pctByte :: "nat \<Rightarrow> string" where
  "pctByte b = [CHR ''%'', hexDigit (b div 16), hexDigit (b mod 16)]"

definition encodeChar :: "char \<Rightarrow> string" where
  "encodeChar c =
     (let n = (of_char c :: nat)
      in if uriUnreserved c then [c]
         else if n < 128 then pctByte n
         else pctByte (192 + n div 64) @ pctByte (128 + n mod 64))"

definition encodeURIComponent :: "string \<Rightarrow> string" where
  "encodeURIComponent s = concat (map encodeChar s)"

text \<open>The search fallback: \<^verbatim>\<open>`https://decathlon.re/search?q=${encodeURIComponent(String(raw).trim())}`\<close>\<close>

definition searchUrl :: "string \<Rightarrow> string" where
  "searchUrl r = ''https://decathlon.re/search?q='' @ encodeURIComponent (trim r)"

text \<open>
  The product URL of both routes: \<^verbatim>\<open>result.variantId?.split("/").pop()\<close> is the short
  variant id, and the URL carries it when it is truthy.
\<close>

definition productUrl :: "resolution \<Rightarrow> string" where
  "productUrl result =
     (let variantIdShort =
            (case variantId result of
               None \<Rightarrow> None
             | Some vid \<Rightarrow> pop (split (CHR ''/'') vid))
      in case variantIdShort of
           None \<Rightarrow> ''https://decathlon.re/products/'' @ handle result
         | Some short \<Rightarrow>
             if short \<noteq> []
             then ''https://decathlon.re/products/'' @ handle result @ ''?variant='' @ short
             else ''https://decathlon.re/products/'' @ handle result)"

text \<open>
  The trailing segment of an identifier, in the words of the specification: what follows
  the last separator, the whole identifier when it has none.
\<close>

definition trailingSegment :: "char \<Rightarrow> string \<Rightarrow> string" where
  "trailingSegment d s = rev (takeWhile (\<lambda>c. c \<noteq> d) (rev s))"

text \<open>
  The loop of both routes over the candidates: the first result with a truthy handle, or
  nothing when the candidates are exhausted.
\<close>

fun resolveFirst ::
  "'g gateway \<Rightarrow> string list \<Rightarrow> 'g world \<Rightarrow> (error + resolution option) \<times> 'g world" where
  "resolveFirst gw [] w = (Inr None, w)"
| "resolveFirst gw (cand # rest) w =
     (case resolveHandleFromCode gw cand w of
        (Inl e, w1) \<Rightarrow> (Inl e, w1)
      | (Inr res, w1) \<Rightarrow>
          (case res of
             None \<Rightarrow> resolveFirst gw rest w1
           | Some result \<Rightarrow>
               if handle result \<noteq> [] then (Inr (Some result), w1)
               else resolveFirst gw rest w1))"

text \<open>The JSON bodies and the responses of the routes.\<close>

record lookup_json =
  json_handle :: "string option"
  json_variantId :: "string option"
  json_source :: string
  json_url :: string
  json_tried :: "string list"

datatype body = ErrorJson string | LookupJson lookup_json

datatype response = Json nat body | Send nat string | Redirect nat string

text \<open>
  \<^verbatim>\<open>GET /scan-lookup?raw=...\<close>; \<open>raw\<close> is \<open>None\<close> when the parameter is absent. Whatever
  is thrown inside the \<^verbatim>\<open>try\<close> is answered with status 500.
\<close>

definition scanLookup ::
  "url_parser \<Rightarrow> 'g gateway \<Rightarrow> string option \<Rightarrow> 'g world \<Rightarrow> response \<times> 'g world" where
  "scanLookup newURL gw raw w =
     (case raw of
        None \<Rightarrow> (Json 400 (ErrorJson ''Missing raw param''), w)
      | Some r \<Rightarrow>
          if r = [] then (Json 400 (ErrorJson ''Missing raw param''), w)
          else
            (case extractCandidates newURL raw of
               Inl e \<Rightarrow> (Json 500 (ErrorJson ''lookup_failed''), w)
             | Inr candidates \<Rightarrow>
                 (case resolveFirst gw candidates w of
                    (Inl e, w1) \<Rightarrow> (Json 500 (ErrorJson ''lookup_failed''), w1)
                  | (Inr (Some result), w1) \<Rightarrow>
                      (Json 200 (LookupJson
                         \<lparr>json_handle = Some (handle result),
                          json_variantId = variantId result,
                          json_source = source result,
                          json_url = productUrl result,
                          json_tried = candidates\<rparr>), w1)
                  | (Inr None, w1) \<Rightarrow>
                      (Json 200 (LookupJson
                         \<lparr>json_handle = None,
                          json_variantId = None,
                          json_source = ''fallback:search'',
                          json_url = searchUrl r,
                          json_tried = candidates\<rparr>), w1))))"

text \<open>\<^verbatim>\<open>GET /r?raw=...\<close>: the \<^verbatim>\<open>catch\<close> redirects to the search fallback.\<close>

definition redirect ::
  "url_parser \<Rightarrow> 'g gateway \<Rightarrow> string option \<Rightarrow> 'g world \<Rightarrow> response \<times> 'g world" where
  "redirect newURL gw raw w =
     (case raw of
        None \<Rightarrow> (Send 400 ''Missing raw'', w)
      | Some r \<Rightarrow>
          if r = [] then (Send 400 ''Missing raw'', w)
          else
            (case extractCandidates newURL raw of
               Inl e \<Rightarrow> (Redirect 302 (searchUrl r), w)
             | Inr candidates \<Rightarrow>
                 (case resolveFirst gw candidates w of
                    (Inl e, w1) \<Rightarrow> (Redirect 302 (searchUrl r), w1)
                  | (Inr (Some result), w1) \<Rightarrow> (Redirect 302 (productUrl result), w1)
                  | (Inr None, w1) \<Rightarrow> (Redirect 302 (searchUrl r), w1))))"

section \<open>The cascade as the specification words it\<close>

text \<open>
  A strategy is a request and the source tag of a match. The specification orders the
  strategies of a code: \<^verbatim>\<open>barcode:<code>\<close> on the variants for an EAN-shaped code, then
  \<^verbatim>\<open>sku:<code>\<close> on the variants for a SKU-shaped one, then \<^verbatim>\<open>tag:"Model: <code>"\<close> and the
  bare code on the products for a Model-shaped one, then the bare code on the products for
  any code.
\<close>

type_synonym strategy = "request \<times> string"

definition strategies :: "string \<Rightarrow> strategy list" where
  "strategies c =
     (if isEAN c then [((Q_VARIANT_BY_QUERY, ''barcode:'' @ c), ''barcode'')] else [])
     @ (if isSKU c then [((Q_VARIANT_BY_QUERY, ''sku:'' @ c), ''sku'')] else [])
     @ (if isModel c
        then [((Q_PRODUCTS_BY_QUERY, ''tag:'' @ [CHR 0x22] @ ''Model: '' @ c @ [CHR 0x22]),
               ''tag:model''),
              ((Q_PRODUCTS_BY_QUERY, c), ''search:model'')]
        else [])
     @ [((Q_PRODUCTS_BY_QUERY, c), ''search:any'')]"

text \<open>
  A call that failed: the transport failed, the body is \<^verbatim>\<open>null\<close>, or the envelope has an
  \<^verbatim>\<open>errors\<close> field whose value is none of \<^verbatim>\<open>null\<close>, \<^verbatim>\<open>false\<close>, \<^verbatim>\<open>0\<close> and the empty
  string.
\<close>

definition failed :: "upstream \<Rightarrow> bool" where
  "failed up =
     (case up of
        Rejected \<Rightarrow> True
      | NullBody \<Rightarrow> True
      | Envelope j \<Rightarrow>
          (case errors j of
             None \<Rightarrow> False
           | Some v \<Rightarrow> v \<noteq> JNull \<and> v \<noteq> JBool False \<and> v \<noteq> JNum 0 \<and> v \<noteq> JStr []))"

text \<open>The data has the shape of the query: variants for a variant lookup, products for a
  product lookup.\<close>

definition shaped :: "doc \<Rightarrow> data option \<Rightarrow> bool" where
  "shaped q d =
     (case d of
        None \<Rightarrow> False
      | Some (ProductVariants vs) \<Rightarrow> q = Q_VARIANT_BY_QUERY
      | Some (Products ps) \<Rightarrow> q = Q_PRODUCTS_BY_QUERY)"

text \<open>
  The product handle that the data yields, with the variant id that goes with it: the
  handle of the parent product of the first variant, with the id of that variant, or the
  handle of the first product, with the id of its first variant if it has one. An absent or
  empty handle is no handle.
\<close>

fun yielded :: "data \<Rightarrow> (string \<times> string option) option" where
  "yielded (ProductVariants []) = None"
| "yielded (ProductVariants (v # vs)) =
     (case v_product_handle v of
        None \<Rightarrow> None
      | Some h \<Rightarrow> if h = [] then None else Some (h, Some (v_id v)))"
| "yielded (Products []) = None"
| "yielded (Products (p # ps)) =
     (if p_handle p = [] then None
      else Some (p_handle p, case p_variants p of [] \<Rightarrow> None | i # is \<Rightarrow> Some i))"

text \<open>
  What a call yields: nothing when it failed or when its data has not the shape of its
  query.
\<close>

definition yield :: "call \<Rightarrow> (string \<times> string option) option" where
  "yield cl =
     (case snd cl of
        Envelope j \<Rightarrow>
          (case data j of
             Some d \<Rightarrow>
               if \<not> failed (snd cl) \<and> shaped (fst (fst cl)) (data j) then yielded d else None
           | None \<Rightarrow> None)
      | _ \<Rightarrow> None)"

text \<open>
  A call that returned without a match: it did not fail, its data has the shape of its
  query, and that data yields no product handle.
\<close>

definition noMatch :: "call \<Rightarrow> bool" where
  "noMatch cl =
     (case snd cl of
        Envelope j \<Rightarrow>
          (case data j of
             Some d \<Rightarrow>
               \<not> failed (snd cl) \<and> shaped (fst (fst cl)) (data j) \<and> yielded d = None
           | None \<Rightarrow> False)
      | _ \<Rightarrow> False)"

text \<open>
  One strategy: the lookup through the gateway; data of another shape is a \<^verbatim>\<open>TypeError\<close>;
  a yielded handle makes the result, with the source tag of the strategy.
\<close>

definition attempt ::
  "'g gateway \<Rightarrow> strategy \<Rightarrow> 'g world \<Rightarrow> (error + resolution option) \<times> 'g world" where
  "attempt gw st w =
     (case adminGQL gw (fst (fst st)) (snd (fst st)) w of
        (Inl e, w1) \<Rightarrow> (Inl e, w1)
      | (Inr None, w1) \<Rightarrow> (Inl TypeError, w1)
      | (Inr (Some d), w1) \<Rightarrow>
          if shaped (fst (fst st)) (Some d)
          then (case yielded d of
                  None \<Rightarrow> (Inr None, w1)
                | Some (h, vid) \<Rightarrow>
                    (Inr (Some \<lparr>handle = h, variantId = vid, source = snd st\<rparr>), w1))
          else (Inl TypeError, w1))"

text \<open>The strategies in order, stopping at the first match; a failure ends the cascade.\<close>

fun cascade ::
  "'g gateway \<Rightarrow> strategy list \<Rightarrow> 'g world \<Rightarrow> (error + resolution option) \<times> 'g world" where
  "cascade gw [] w = (Inr None, w)"
| "cascade gw (st # sts) w =
     (case attempt gw st w of
        (Inl e, w1) \<Rightarrow> (Inl e, w1)
      | (Inr (Some r), w1) \<Rightarrow> (Inr (Some r), w1)
      | (Inr None, w1) \<Rightarrow> cascade gw sts w1)"

section \<open>Sample environments\<close>

text \<open>
  A URL parser that knows a few inputs, with the results that the WHATWG parser gives
  for them, and rejects every other input.
\<close>

definition demoURL :: url_parser where
  "demoURL s =
     (if s = ''https://shop.example/p/123?ean=3608459693135''
      then Inr \<lparr>searchParams = [(''ean'', ''3608459693135'')],
                pathname = ''/p/123'', hash = ''''\<rparr>
      else if s = ''https://decathlon.re/p/3608459693135''
      then Inr \<lparr>searchParams = [], pathname = ''/p/3608459693135'', hash = ''''\<rparr>
      else if s = ''https://shop.example/?sku=%20''
      then Inr \<lparr>searchParams = [(''sku'', '' '')], pathname = ''/'', hash = ''''\<rparr>
      else if s = ''https://shop.example/p/AB-12?code=zz#ean=3608459693135''
      then Inr \<lparr>searchParams = [(''code'', ''zz'')], pathname = ''/p/AB-12'',
                hash = ''#ean=3608459693135''\<rparr>
      else Inl TypeError)"

text \<open>
  A catalog that counts the calls it has answered. It knows one variant by its barcode and
  one product without variants by the free text of its model code; every other lookup comes
  back empty.
\<close>

definition demoGateway :: "nat gateway" where
  "demoGateway n rq =
     (if rq = (Q_VARIANT_BY_QUERY, ''barcode:3608459693135'')
      then Envelope \<lparr>errors = None,
                     data = Some (ProductVariants
                       [\<lparr>v_id = ''gid://shopify/ProductVariant/12345'',
                         v_product_handle = Some ''some-product''\<rparr>])\<rparr>
      else if rq = (Q_PRODUCTS_BY_QUERY, ''6401234'')
      then Envelope \<lparr>errors = None,
                     data = Some (Products [\<lparr>p_handle = ''ball'', p_variants = []\<rparr>])\<rparr>
      else (case fst rq of
              Q_VARIANT_BY_QUERY \<Rightarrow> Envelope \<lparr>errors = None, data = Some (ProductVariants [])\<rparr>
            | Q_PRODUCTS_BY_QUERY \<Rightarrow> Envelope \<lparr>errors = None, data = Some (Products [])\<rparr>),
      Suc n)"

text \<open>A catalog whose every answer is an envelope with a list of one error and no data.\<close>

definition errorGateway :: "nat gateway" where
  "errorGateway n rq =
     (Envelope \<lparr>errors = Some (JArr [JObj [(''message'', JStr ''Throttled'')]]), data = None\<rparr>,
      Suc n)"

text \<open>
  A catalog whose every answer has the field \<^verbatim>\<open>errors: null\<close> beside empty data of the
  shape of the query.
\<close>

definition nullErrorsGateway :: "nat gateway" where
  "nullErrorsGateway n rq =
     (case fst rq of
        Q_VARIANT_BY_QUERY \<Rightarrow> Envelope \<lparr>errors = Some JNull, data = Some (ProductVariants [])\<rparr>
      | Q_PRODUCTS_BY_QUERY \<Rightarrow> Envelope \<lparr>errors = Some JNull, data = Some (Products [])\<rparr>,
      Suc n)"


text \<open>A catalog whose every answer is the body \<^verbatim>\<open>null\<close>.\<close>

definition nullBodyGateway :: "nat gateway" where
  "nullBodyGateway n rq = (NullBody, Suc n)"

section \<open>Properties of the classifier and of the extractor\<close>

lemma isDigit_isCodeChar: "isDigit c \<Longrightarrow> isCodeChar c"
  unfolding isDigit_def isCodeChar_def by (elim set_ConsD[elim_format]) auto

lemma isModel_isSKU: "isModel s \<Longrightarrow> isSKU s"
  unfolding isModel_def isSKU_def Let_def
  by (auto simp: list_all_iff intro: isDigit_isCodeChar)

lemma distinct_add: "distinct out \<Longrightarrow> distinct (add x out)"
  by (simp add: add_def)

lemma distinct_addParam: "distinct out \<Longrightarrow> distinct (addParam u out k)"
  by (simp add: addParam_def distinct_add split: option.splits)

lemma distinct_foldl_addParam: "distinct out \<Longrightarrow> distinct (foldl (addParam u) out ks)"
  by (induction ks arbitrary: out) (simp_all add: distinct_addParam)

lemma distinct_addLastSegment: "distinct out \<Longrightarrow> distinct (addLastSegment u out)"
  by (simp add: addLastSegment_def Let_def distinct_add split: option.splits)

lemma distinct_addFragment: "distinct out \<Longrightarrow> distinct (addFragment u out)"
  by (simp add: addFragment_def distinct_add split: option.splits)

lemma distinct_tryBlock: "tryBlock newURL s [] = Inr out \<Longrightarrow> distinct out"
  by (auto simp: tryBlock_def distinct_addFragment distinct_addLastSegment
      distinct_foldl_addParam split: sum.splits)

lemma set_insortBy: "set (insortBy c x ys) = insert x (set ys)"
  by (induction ys) auto




lemma sorted_insortBy:
  "sorted_wrt (\<lambda>a b. score b \<le> score a) ys \<Longrightarrow>
   sorted_wrt (\<lambda>a b. score b \<le> score a) (insortBy cmp x ys)"
  by (induction ys) (auto simp: set_insortBy cmp_def)

lemma sorted_sortBy: "sorted_wrt (\<lambda>a b. score b \<le> score a) (sortBy cmp xs)"
  by (induction xs) (simp_all add: sortBy_def sorted_insortBy)

text \<open>Every result of the extractor is the sorted content of a set.\<close>

lemma extractCandidates_cases:
  assumes "extractCandidates newURL raw = Inr cs"
  obtains out where "cs = sortBy cmp out" "distinct out"
proof -
  have "\<exists>out. cs = sortBy cmp out \<and> distinct out"
  proof (cases raw)
    case None
    with assms have "cs = sortBy cmp [] \<and> distinct ([]::string list)"
      by (simp add: extractCandidates_def sortBy_def)
    then show ?thesis by blast
  next
    case (Some r)
    show ?thesis
    proof (cases "r = []")
      case True
      with Some assms have "cs = sortBy cmp [] \<and> distinct ([]::string list)"
        by (simp add: extractCandidates_def sortBy_def)
      then show ?thesis by blast
    next
      case False
      define out where
        "out = (if isURL (trim r) then
                  (case tryBlock newURL (trim r) [] of Inl e \<Rightarrow> [] | Inr out' \<Rightarrow> out')
                else add (trim r) [])"
      from Some False assms have "cs = sortBy cmp out"
        by (simp add: extractCandidates_def out_def Let_def)
      moreover have "distinct out"
        by (auto simp: out_def add_def split: sum.splits dest: distinct_tryBlock)
      ultimately show ?thesis by blast
    qed
  qed
  then show thesis using that by blast
qed

lemma score_EAN: "isEAN a \<Longrightarrow> score a = 3"
  by (simp add: score_def)

lemma score_not_EAN: "\<not> isEAN b \<Longrightarrow> score b \<le> 2"
  by (simp add: score_def)

lemma trim_space: "trim '' '' = []"
  by (simp add: trim_def isSpace_def)

lemma isURL_empty: "\<not> isURL []"
  by (simp add: isURL_def trim_def startsWithCI_def)


text \<open>
  C1, on the code: when the trimmed input is URL-shaped and \<^verbatim>\<open>new URL\<close> throws on it, the
  catch block adds nothing and the extractor returns the empty list, without the trimmed
  input. It does not raise.
\<close>

theorem extractCandidates_malformed_url:
  assumes "isURL (trim r)" and "newURL (trim r) = Inl e"
  shows "extractCandidates newURL (Some r) = Inr []"
proof -
  from assms(1) isURL_empty have "r \<noteq> []"
    by (auto simp: trim_def)
  with assms show ?thesis
    by (simp add: extractCandidates_def tryBlock_def sortBy_def)
qed

theorem extractCandidates_malformed_url_witness:
  "isURL (trim ''https://'') \<and> demoURL (trim ''https://'') = Inl TypeError
   \<and> extractCandidates demoURL (Some ''https://'') = Inr []"
proof -
  have a: "isURL (trim ''https://'')" by code_simp
  have b: "demoURL (trim ''https://'') = Inl TypeError" by code_simp
  from extractCandidates_malformed_url[where r = "''https://''" and newURL = demoURL, OF a b] a b
  show ?thesis by simp
qed

text \<open>
  C2, on the code: a raw input of one space is truthy, so it passes the guard, and its trimmed
  form, the empty string, is the only candidate. So is the trimmed value of a query
  parameter that holds one space.
\<close>

theorem extractCandidates_whitespace_raw:
  "extractCandidates newURL (Some '' '') = Inr [''''] \<and>
   extractCandidates demoURL (Some ''https://shop.example/?sku=%20'') = Inr ['''']"
proof -
  have "extractCandidates newURL (Some '' '') = Inr ['''']"
    by (simp add: extractCandidates_def trim_space isURL_empty add_def sortBy_def)
  moreover have "extractCandidates demoURL (Some ''https://shop.example/?sku=%20'') = Inr ['''']"
    by code_simp
  ultimately show ?thesis by simp
qed

text \<open>
  C5: the extractor never raises: for every parser and every input it returns a list; for
  \<^verbatim>\<open>null\<close> and for the empty string the list is empty.
\<close>

theorem extractCandidates_total:
  "(\<exists>cs. extractCandidates newURL raw = Inr cs) \<and>
   extractCandidates newURL None = Inr [] \<and>
   extractCandidates newURL (Some []) = Inr []"
  by (simp add: extractCandidates_def Let_def split: option.splits)

lemma demo_extract_mixed:
  "extractCandidates demoURL (Some ''https://shop.example/p/AB-12?code=zz#ean=3608459693135'')
   = Inr [''3608459693135'', ''AB-12'', ''zz'']"
  by code_simp

text \<open>
  C6: the score is 3 for an EAN-shaped string, else 2 for a SKU-shaped one, else 1 for a
  Model-shaped one, else 0, and the output of the extractor is sorted by descending score:
  before an EAN-shaped candidate stand only EAN-shaped ones, before a SKU-shaped candidate
  only EAN-shaped or SKU-shaped ones, before a Model-shaped candidate only EAN-shaped,
  SKU-shaped or Model-shaped ones; and an EAN-shaped candidate stands before every candidate
  that is not EAN-shaped.
\<close>

theorem extractCandidates_sorted_by_score:
  assumes "extractCandidates newURL raw = Inr cs"
  shows "(\<forall>x. score x = (if isEAN x then 3 else if isSKU x then 2 else if isModel x then 1 else 0)) \<and>
         sorted_wrt (\<lambda>a b. score b \<le> score a) cs \<and>
         (\<forall>i j. i < j \<and> j < length cs \<longrightarrow>
            (isEAN (cs ! j) \<longrightarrow> isEAN (cs ! i)) \<and>
            (isSKU (cs ! j) \<longrightarrow> isEAN (cs ! i) \<or> isSKU (cs ! i)) \<and>
            (isModel (cs ! j) \<longrightarrow> isEAN (cs ! i) \<or> isSKU (cs ! i) \<or> isModel (cs ! i))) \<and>
         (\<forall>i j. i < length cs \<and> j < length cs \<and> isEAN (cs ! i) \<and> \<not> isEAN (cs ! j)
                \<longrightarrow> i < j)"
proof -
  from assms obtain out where cs: "cs = sortBy cmp out"
    by (rule extractCandidates_cases)
  have sc: "\<forall>x. score x = (if isEAN x then 3 else if isSKU x then 2 else if isModel x then 1 else 0)"
    by (simp add: score_def)
  have s: "sorted_wrt (\<lambda>a b. score b \<le> score a) cs"
    unfolding cs by (rule sorted_sortBy)
  have le: "score (cs ! j) \<le> score (cs ! i)" if "i < j" "j < length cs" for i j
    using s that by (simp add: sorted_wrt_iff_nth_less)
  have tiers: "(isEAN (cs ! j) \<longrightarrow> isEAN (cs ! i)) \<and>
            (isSKU (cs ! j) \<longrightarrow> isEAN (cs ! i) \<or> isSKU (cs ! i)) \<and>
            (isModel (cs ! j) \<longrightarrow> isEAN (cs ! i) \<or> isSKU (cs ! i) \<or> isModel (cs ! i))"
    if "i < j" "j < length cs" for i j
    using le[OF that] by (auto simp: score_def split: if_splits)
  have "i < j"
    if h: "i < length cs" "j < length cs" "isEAN (cs ! i)" "\<not> isEAN (cs ! j)" for i j
  proof (rule ccontr)
    assume "\<not> i < j"
    moreover have "i \<noteq> j" using h by auto
    ultimately have "j < i" by simp
    from le[OF this h(1)] score_EAN[OF h(3)] score_not_EAN[OF h(4)] show False by simp
  qed
  with sc s tiers show ?thesis by blast
qed

theorem extractCandidates_sorted_by_score_witness:
  "tryBlock demoURL ''https://shop.example/p/AB-12?code=zz#ean=3608459693135'' []
     = Inr [''zz'', ''AB-12'', ''3608459693135'']
   \<and> extractCandidates demoURL
       (Some ''https://shop.example/p/AB-12?code=zz#ean=3608459693135'')
     = Inr [''3608459693135'', ''AB-12'', ''zz'']
   \<and> map score [''3608459693135'', ''AB-12'', ''zz''] = [3, 2, 0]
   \<and> isEAN ''3608459693135'' \<and> isSKU ''AB-12'' \<and> \<not> isEAN ''AB-12''
   \<and> \<not> isEAN ''zz'' \<and> \<not> isSKU ''zz'' \<and> \<not> isModel ''zz''
   \<and> sorted_wrt (\<lambda>a b. score b \<le> score a) [''3608459693135'', ''AB-12'', ''zz'']"
proof -
  have a: "tryBlock demoURL ''https://shop.example/p/AB-12?code=zz#ean=3608459693135'' []
     = Inr [''zz'', ''AB-12'', ''3608459693135'']" by code_simp
  have b: "isEAN ''3608459693135'' \<and> isSKU ''AB-12'' \<and> \<not> isEAN ''AB-12''
   \<and> \<not> isEAN ''zz'' \<and> \<not> isSKU ''zz'' \<and> \<not> isModel ''zz''" by code_simp
  from extractCandidates_sorted_by_score[OF demo_extract_mixed]
  have c: "sorted_wrt (\<lambda>a b. score b \<le> score a) [''3608459693135'', ''AB-12'', ''zz'']"
    and d: "\<forall>x. score x = (if isEAN x then 3 else if isSKU x then 2 else if isModel x then 1 else 0)"
    by blast+
  have e: "map score [''3608459693135'', ''AB-12'', ''zz''] = [3, 2, 0]"
    using b d by simp
  from a b c e demo_extract_mixed show ?thesis by simp
qed



text \<open>
  C10: a Model-shaped string is SKU-shaped, so the score is never 1: no string is ranked in
  the Model tier.
\<close>

theorem isModel_isSKU_score_never_1:
  "(isModel s \<longrightarrow> isSKU s) \<and> score s \<noteq> 1"
  using isModel_isSKU[of s] by (auto simp: score_def)

theorem isModel_isSKU_score_never_1_witness:
  "isModel ''6401234'' \<and> isSKU ''6401234'' \<and> score ''6401234'' \<noteq> 1"
proof -
  have a: "isModel ''6401234''" by code_simp
  with isModel_isSKU_score_never_1[of "''6401234''"] show ?thesis by blast
qed

section \<open>Properties of the gateway and of the resolver\<close>

lemma truthy_iff:
  "truthy v \<longleftrightarrow> v \<noteq> JNull \<and> v \<noteq> JBool False \<and> v \<noteq> JNum 0 \<and> v \<noteq> JStr []"
  by (cases v) auto

lemma adminGQL_world:
  "snd (adminGQL gw d qv w) =
     (snd (gw (fst w) (d, qv)), snd w @ [((d, qv), fst (gw (fst w) (d, qv)))])"
  by (simp add: adminGQL_def Let_def split: prod.splits upstream.splits option.splits)

lemma adminGQL_result:
  "fst (adminGQL gw d qv w) =
     (case fst (gw (fst w) (d, qv)) of
        Rejected \<Rightarrow> Inl FetchError
      | NullBody \<Rightarrow> Inl TypeError
      | Envelope j \<Rightarrow>
          (case errors j of
             None \<Rightarrow> Inr (data j)
           | Some es \<Rightarrow> if truthy es then Inl (UpstreamErrors es) else Inr (data j)))"
  by (simp add: adminGQL_def Let_def split: prod.splits upstream.splits option.splits)

lemma adminGQL_raises_iff:
  "(\<exists>e. fst (adminGQL gw d qv w) = Inl e) \<longleftrightarrow> failed (fst (gw (fst w) (d, qv)))"
  by (simp add: adminGQL_result failed_def truthy_iff split: upstream.splits option.splits)

lemma adminGQL_returns:
  "fst (adminGQL gw d qv w) = Inr x \<Longrightarrow>
     \<exists>j. fst (gw (fst w) (d, qv)) = Envelope j \<and> data j = x \<and> \<not> failed (Envelope j)"
  by (auto simp: adminGQL_result failed_def truthy_iff split: upstream.splits option.splits if_splits)

lemma attempt_world:
  "snd (attempt gw st w) =
     (snd (gw (fst w) (fst st)), snd w @ [(fst st, fst (gw (fst w) (fst st)))])"
  using adminGQL_world[of gw "fst (fst st)" "snd (fst st)" w]
  by (auto simp: attempt_def split: prod.splits sum.splits option.splits)

lemma attempt_result:
  "fst (attempt gw st w) =
     (case fst (adminGQL gw (fst (fst st)) (snd (fst st)) w) of
        Inl e \<Rightarrow> Inl e
      | Inr None \<Rightarrow> Inl TypeError
      | Inr (Some d) \<Rightarrow>
          if shaped (fst (fst st)) (Some d)
          then (case yielded d of
                  None \<Rightarrow> Inr None
                | Some (h, vid) \<Rightarrow> Inr (Some \<lparr>handle = h, variantId = vid, source = snd st\<rparr>))
          else Inl TypeError)"
  by (auto simp: attempt_def split: prod.splits sum.splits option.splits)

text \<open>A strategy yields nothing exactly when its call returned without a match.\<close>

lemma attempt_noMatch:
  "noMatch (fst st, fst (gw (fst w) (fst st))) \<longleftrightarrow> fst (attempt gw st w) = Inr None"
  by (cases st)
     (auto simp: attempt_result adminGQL_result noMatch_def failed_def truthy_iff
           split: upstream.splits option.splits sum.splits if_splits)

lemma attempt_yield:
  "fst (attempt gw st w) = Inr (Some r) \<longleftrightarrow>
     yield (fst st, fst (gw (fst w) (fst st))) = Some (handle r, variantId r) \<and> source r = snd st"
  by (cases st)
     (auto simp: attempt_result adminGQL_result yield_def failed_def truthy_iff
           split: upstream.splits option.splits sum.splits if_splits)

lemma attempt_not_failed:
  "fst (attempt gw st w) = Inr x \<Longrightarrow> \<not> failed (fst (gw (fst w) (fst st)))"
  using adminGQL_raises_iff[of gw "fst (fst st)" "snd (fst st)" w]
  by (auto simp: attempt_result split: sum.splits)

lemma noMatch_not_failed: "noMatch cl \<Longrightarrow> \<not> failed (snd cl)"
  by (auto simp: noMatch_def split: upstream.splits option.splits)

lemma yielded_handle: "yielded d = Some (h, vid) \<Longrightarrow> h \<noteq> []"
  by (induction d rule: yielded.induct) (auto split: option.splits if_splits)

lemma yield_handle: "yield cl = Some (h, vid) \<Longrightarrow> h \<noteq> []"
  by (auto simp: yield_def dest: yielded_handle split: upstream.splits option.splits if_splits)

text \<open>
  On a variant lookup and on a product lookup, a strategy is what the resolver does with the
  data: the first node, and the result when its handle is truthy.
\<close>

lemma attempt_variant:
  "attempt gw ((Q_VARIANT_BY_QUERY, q), src) w =
     (case adminGQL gw Q_VARIANT_BY_QUERY q w of
        (Inl e, w1) \<Rightarrow> (Inl e, w1)
      | (Inr d, w1) \<Rightarrow>
          (case firstVariant d of
             Inl e \<Rightarrow> (Inl e, w1)
           | Inr v \<Rightarrow> (Inr (variantResult v src), w1)))"
  by (auto simp: attempt_def shaped_def firstVariant_def variantResult_def
      split: prod.splits sum.splits option.splits data.splits list.splits)

lemma attempt_product:
  "attempt gw ((Q_PRODUCTS_BY_QUERY, q), src) w =
     (case adminGQL gw Q_PRODUCTS_BY_QUERY q w of
        (Inl e, w1) \<Rightarrow> (Inl e, w1)
      | (Inr d, w1) \<Rightarrow>
          (case firstProduct d of
             Inl e \<Rightarrow> (Inl e, w1)
           | Inr p \<Rightarrow> (Inr (productResult p src), w1)))"
  by (auto simp: attempt_def shaped_def firstProduct_def productResult_def
      split: prod.splits sum.splits option.splits data.splits list.splits)

subsection \<open>The blocks of the resolver are the cascade of the specification\<close>

lemma cascade_step:
  "cascade gw (st # sts) w =
     (case fst (attempt gw st w) of
        Inl e \<Rightarrow> (Inl e, snd (attempt gw st w))
      | Inr (Some r) \<Rightarrow> (Inr (Some r), snd (attempt gw st w))
      | Inr None \<Rightarrow> cascade gw sts (snd (attempt gw st w)))"
  by (simp split: prod.splits sum.splits option.splits)

lemma searchAny_cascade:
  "searchAny gw c w = cascade gw [((Q_PRODUCTS_BY_QUERY, c), ''search:any'')] w"
  by (simp add: searchAny_def attempt_product split: prod.splits sum.splits option.splits)

lemma modelBlock_cascade:
  "modelBlock gw c w =
     cascade gw
       ((if isModel c
         then [((Q_PRODUCTS_BY_QUERY, ''tag:'' @ [CHR 0x22] @ ''Model: '' @ c @ [CHR 0x22]),
                ''tag:model''),
               ((Q_PRODUCTS_BY_QUERY, c), ''search:model'')]
         else [])
        @ [((Q_PRODUCTS_BY_QUERY, c), ''search:any'')]) w"
  by (simp add: modelBlock_def modelTagQuery_def searchAny_cascade attempt_product
      split: prod.splits sum.splits option.splits)

lemma skuBlock_cascade:
  "skuBlock gw c w =
     cascade gw
       ((if isSKU c then [((Q_VARIANT_BY_QUERY, ''sku:'' @ c), ''sku'')] else [])
        @ (if isModel c
           then [((Q_PRODUCTS_BY_QUERY, ''tag:'' @ [CHR 0x22] @ ''Model: '' @ c @ [CHR 0x22]),
                  ''tag:model''),
                 ((Q_PRODUCTS_BY_QUERY, c), ''search:model'')]
           else [])
        @ [((Q_PRODUCTS_BY_QUERY, c), ''search:any'')]) w"
  by (simp add: skuBlock_def skuQuery_def modelBlock_cascade attempt_variant
      split: prod.splits sum.splits option.splits)

lemma barcodeBlock_cascade: "barcodeBlock gw c w = cascade gw (strategies c) w"
  by (simp add: barcodeBlock_def barcodeQuery_def skuBlock_cascade strategies_def attempt_variant
      split: prod.splits sum.splits option.splits)

lemma resolve_cascade:
  "resolveHandleFromCode gw code w = cascade gw (strategies (trim code)) w"
  by (simp add: resolveHandleFromCode_def barcodeBlock_cascade)

subsection \<open>The calls of one cascade\<close>

text \<open>
  The calls that a cascade adds to the log: their requests are an initial part of the
  strategies, all but the last returned without a match, and the last one did so too exactly
  when the cascade ends without a result; with a result, the last call yields its handle and
  variant id.
\<close>

lemma cascade_run:
  "\<exists>issued.
     snd (snd (cascade gw sts w)) = snd w @ issued \<and>
     prefix (map fst issued) (map fst sts) \<and>
     (\<forall>cl\<in>set (butlast issued). noMatch cl) \<and>
     (fst (cascade gw sts w) = Inr None \<longrightarrow>
        map fst issued = map fst sts \<and> (\<forall>cl\<in>set issued. noMatch cl)) \<and>
     (fst (cascade gw sts w) \<noteq> Inr None \<longrightarrow> issued \<noteq> [] \<and> \<not> noMatch (last issued)) \<and>
     (\<forall>r. fst (cascade gw sts w) = Inr (Some r) \<longrightarrow>
        yield (last issued) = Some (handle r, variantId r) \<and>
        (fst (last issued), source r) = sts ! (length issued - 1)) \<and>
     (\<forall>x. fst (cascade gw sts w) = Inr x \<longrightarrow> (\<forall>cl\<in>set issued. \<not> failed (snd cl)))"
proof (induction sts arbitrary: w)
  case Nil
  then show ?case by simp
next
  case (Cons st sts)
  let ?w1 = "snd (attempt gw st w)"
  let ?cl = "(fst st, fst (gw (fst w) (fst st)))"
  have w1: "snd ?w1 = snd w @ [?cl]"
    by (simp add: attempt_world)
  show ?case
  proof (cases "fst (attempt gw st w) = Inr None")
    case True
    then have nm: "noMatch ?cl" by (simp add: attempt_noMatch)
    then have nf: "\<not> failed (snd ?cl)" by (rule noMatch_not_failed)
    have step: "cascade gw (st # sts) w = cascade gw sts ?w1"
      using True by (simp add: cascade_step del: cascade.simps)
    from Cons.IH[of ?w1] obtain issued where
      i1: "snd (snd (cascade gw sts ?w1)) = snd ?w1 @ issued"
      and i0: "prefix (map fst issued) (map fst sts)"
      and i2: "\<forall>cl\<in>set (butlast issued). noMatch cl"
      and i3: "fst (cascade gw sts ?w1) = Inr None \<longrightarrow>
                 map fst issued = map fst sts \<and> (\<forall>cl\<in>set issued. noMatch cl)"
      and i4: "fst (cascade gw sts ?w1) \<noteq> Inr None \<longrightarrow>
                 issued \<noteq> [] \<and> \<not> noMatch (last issued)"
      and i6: "\<forall>r. fst (cascade gw sts ?w1) = Inr (Some r) \<longrightarrow>
                 yield (last issued) = Some (handle r, variantId r) \<and>
                 (fst (last issued), source r) = sts ! (length issued - 1)"
      and i5: "\<forall>x. fst (cascade gw sts ?w1) = Inr x \<longrightarrow>
                 (\<forall>cl\<in>set issued. \<not> failed (snd cl))"
      by blast
    have a: "snd (snd (cascade gw (st # sts) w)) = snd w @ (?cl # issued)"
      using i1 w1 by (simp add: step del: cascade.simps)
    have p: "prefix (map fst (?cl # issued)) (map fst (st # sts))"
      using i0 by simp
    have b: "\<forall>cl\<in>set (butlast (?cl # issued)). noMatch cl"
      using i2 nm by auto
    have c: "fst (cascade gw (st # sts) w) = Inr None \<longrightarrow>
               map fst (?cl # issued) = map fst (st # sts) \<and>
               (\<forall>cl\<in>set (?cl # issued). noMatch cl)"
      using i3 nm by (simp add: step del: cascade.simps)
    have d: "fst (cascade gw (st # sts) w) \<noteq> Inr None \<longrightarrow>
               ?cl # issued \<noteq> [] \<and> \<not> noMatch (last (?cl # issued))"
      using i4 by (simp add: step del: cascade.simps)
    have f: "\<forall>r. fst (cascade gw (st # sts) w) = Inr (Some r) \<longrightarrow>
               yield (last (?cl # issued)) = Some (handle r, variantId r) \<and>
               (fst (last (?cl # issued)), source r) = (st # sts) ! (length (?cl # issued) - 1)"
    proof (intro allI impI)
      fix r assume r: "fst (cascade gw (st # sts) w) = Inr (Some r)"
      then have r': "fst (cascade gw sts ?w1) = Inr (Some r)" by (simp add: step del: cascade.simps)
      with i4 have ne: "issued \<noteq> []" by simp
      then obtain n where n: "length issued = Suc n" by (cases issued) auto
      from i6 r' have "yield (last issued) = Some (handle r, variantId r)"
        and "(fst (last issued), source r) = sts ! (length issued - 1)" by simp_all
      with ne n show "yield (last (?cl # issued)) = Some (handle r, variantId r) \<and>
               (fst (last (?cl # issued)), source r) = (st # sts) ! (length (?cl # issued) - 1)"
        by simp
    qed
    have e: "\<forall>x. fst (cascade gw (st # sts) w) = Inr x \<longrightarrow>
               (\<forall>cl\<in>set (?cl # issued). \<not> failed (snd cl))"
      using i5 nf by (simp add: step del: cascade.simps)
    from a p b c d f e show ?thesis by blast
  next
    case False
    then have step: "cascade gw (st # sts) w = attempt gw st w"
      by (cases "attempt gw st w") (auto split: sum.splits option.splits)
    have a: "snd (snd (cascade gw (st # sts) w)) = snd w @ [?cl]"
      using w1 by (simp add: step del: cascade.simps)
    have p: "prefix (map fst [?cl]) (map fst (st # sts))"
      by simp
    have b: "\<forall>cl\<in>set (butlast [?cl]). noMatch cl" by simp
    have c: "fst (cascade gw (st # sts) w) = Inr None \<longrightarrow>
               map fst [?cl] = map fst (st # sts) \<and> (\<forall>cl\<in>set [?cl]. noMatch cl)"
      using False by (simp add: step del: cascade.simps)
    have d: "fst (cascade gw (st # sts) w) \<noteq> Inr None \<longrightarrow>
               [?cl] \<noteq> [] \<and> \<not> noMatch (last [?cl])"
      using False by (simp add: attempt_noMatch)
    have f: "\<forall>r. fst (cascade gw (st # sts) w) = Inr (Some r) \<longrightarrow>
               yield (last [?cl]) = Some (handle r, variantId r) \<and>
               (fst (last [?cl]), source r) = (st # sts) ! (length [?cl] - 1)"
    proof (intro allI impI)
      fix r assume "fst (cascade gw (st # sts) w) = Inr (Some r)"
      then have "fst (attempt gw st w) = Inr (Some r)" by (simp add: step del: cascade.simps)
      then have "yield ?cl = Some (handle r, variantId r) \<and> source r = snd st"
        by (simp add: attempt_yield)
      then show "yield (last [?cl]) = Some (handle r, variantId r) \<and>
               (fst (last [?cl]), source r) = (st # sts) ! (length [?cl] - 1)"
        by (simp add: prod_eq_iff)
    qed
    have e: "\<forall>x. fst (cascade gw (st # sts) w) = Inr x \<longrightarrow>
               (\<forall>cl\<in>set [?cl]. \<not> failed (snd cl))"
      using attempt_not_failed[of gw st w] by (simp add: step del: cascade.simps)
    from a p b c d f e show ?thesis by blast
  qed
qed

lemma prefix_map_nth:
  assumes "prefix (map f xs) ys" and "k < length xs"
  shows "k < length ys" and "f (xs ! k) = ys ! k"
proof -
  from assms(1) obtain zs where ys: "ys = map f xs @ zs"
    by (auto simp: prefix_def)
  show "k < length ys" using assms(2) by (simp add: ys)
  show "f (xs ! k) = ys ! k" using assms(2) by (simp add: ys nth_append)
qed

lemma requests_of_strategies:
  "map fst (strategies c) =
     (if isEAN c then [(Q_VARIANT_BY_QUERY, ''barcode:'' @ c)] else [])
     @ (if isSKU c then [(Q_VARIANT_BY_QUERY, ''sku:'' @ c)] else [])
     @ (if isModel c
        then [(Q_PRODUCTS_BY_QUERY, ''tag:'' @ [CHR 0x22] @ ''Model: '' @ c @ [CHR 0x22]),
              (Q_PRODUCTS_BY_QUERY, c)]
        else [])
     @ [(Q_PRODUCTS_BY_QUERY, c)]"
  by (simp add: strategies_def)

text \<open>
  Among the strategies of a code that is Model-shaped and SKU-shaped, the SKU lookup stands
  before every product lookup.
\<close>

lemma strategies_model_sku:
  assumes "isModel c" and "isSKU c" and "k < length (strategies c)"
    and "fst (fst (strategies c ! k)) = Q_PRODUCTS_BY_QUERY"
  shows "\<exists>j<k. fst (strategies c ! j) = (Q_VARIANT_BY_QUERY, ''sku:'' @ c)"
proof (cases "isEAN c")
  case True
  with assms(1,2) have s: "strategies c =
     [((Q_VARIANT_BY_QUERY, ''barcode:'' @ c), ''barcode''),
      ((Q_VARIANT_BY_QUERY, ''sku:'' @ c), ''sku''),
      ((Q_PRODUCTS_BY_QUERY, ''tag:'' @ [CHR 0x22] @ ''Model: '' @ c @ [CHR 0x22]), ''tag:model''),
      ((Q_PRODUCTS_BY_QUERY, c), ''search:model''),
      ((Q_PRODUCTS_BY_QUERY, c), ''search:any'')]"
    by (simp add: strategies_def)
  from assms(3) have "k = 0 \<or> k = 1 \<or> 1 < k" by arith
  with assms(4) have "1 < k" by (auto simp: s)
  moreover have "fst (strategies c ! 1) = (Q_VARIANT_BY_QUERY, ''sku:'' @ c)"
    by (simp add: s)
  ultimately show ?thesis by blast
next
  case False
  with assms(1,2) have s: "strategies c =
     [((Q_VARIANT_BY_QUERY, ''sku:'' @ c), ''sku''),
      ((Q_PRODUCTS_BY_QUERY, ''tag:'' @ [CHR 0x22] @ ''Model: '' @ c @ [CHR 0x22]), ''tag:model''),
      ((Q_PRODUCTS_BY_QUERY, c), ''search:model''),
      ((Q_PRODUCTS_BY_QUERY, c), ''search:any'')]"
    by (simp add: strategies_def)
  from assms(3) have "k = 0 \<or> 0 < k" by arith
  with assms(4) have "0 < k" by (auto simp: s)
  moreover have "fst (strategies c ! 0) = (Q_VARIANT_BY_QUERY, ''sku:'' @ c)"
    by (simp add: s)
  ultimately show ?thesis by blast
qed

text \<open>
  C4: the resolver is the cascade over the strategies of the trimmed code \<open>c\<close>. The requests it
  issues are an initial part of the list \<^verbatim>\<open>barcode:c\<close> (for an EAN-shaped code),
  \<^verbatim>\<open>sku:c\<close> (SKU-shaped), \<^verbatim>\<open>tag:"Model: c"\<close> and the free text \<open>c\<close> (Model-shaped), the free
  text \<open>c\<close>. Every call before the last one returned without a match. Without a result every
  strategy was tried and none matched. With a result, the last call is the one that yields
  the product handle and the variant id of the result, and the source tag is the one of that
  strategy. For a code that is Model-shaped and SKU-shaped, every product lookup issued
  (model tag or free text) comes after the lookup \<^verbatim>\<open>sku:c\<close>.
\<close>

theorem resolveHandleFromCode_cascade_order:
  assumes c: "c = trim code"
  shows
  "resolveHandleFromCode gw code w = cascade gw (strategies c) w \<and>
   (\<exists>issued.
      snd (snd (resolveHandleFromCode gw code w)) = snd w @ issued \<and>
      prefix (map fst issued)
        ((if isEAN c then [(Q_VARIANT_BY_QUERY, ''barcode:'' @ c)] else [])
         @ (if isSKU c then [(Q_VARIANT_BY_QUERY, ''sku:'' @ c)] else [])
         @ (if isModel c
            then [(Q_PRODUCTS_BY_QUERY, ''tag:'' @ [CHR 0x22] @ ''Model: '' @ c @ [CHR 0x22]),
                  (Q_PRODUCTS_BY_QUERY, c)]
            else [])
         @ [(Q_PRODUCTS_BY_QUERY, c)]) \<and>
      (\<forall>cl\<in>set (butlast issued). noMatch cl) \<and>
      (fst (resolveHandleFromCode gw code w) = Inr None \<longrightarrow>
         map fst issued = map fst (strategies c) \<and> (\<forall>cl\<in>set issued. noMatch cl)) \<and>
      (\<forall>r. fst (resolveHandleFromCode gw code w) = Inr (Some r) \<longrightarrow>
         issued \<noteq> [] \<and> handle r \<noteq> [] \<and>
         yield (last issued) = Some (handle r, variantId r) \<and>
         (fst (last issued), source r) = strategies c ! (length issued - 1)) \<and>
      (isModel c \<and> isSKU c \<longrightarrow>
         (\<forall>i<length issued. fst (fst (issued ! i)) = Q_PRODUCTS_BY_QUERY \<longrightarrow>
            (\<exists>j<i. fst (issued ! j) = (Q_VARIANT_BY_QUERY, ''sku:'' @ c)))))"
proof -
  let ?run = "cascade gw (strategies c) w"
  have eq: "resolveHandleFromCode gw code w = ?run"
    unfolding c by (rule resolve_cascade)
  from cascade_run[of gw "strategies c" w] obtain issued where
    tr: "snd (snd ?run) = snd w @ issued"
    and pre: "prefix (map fst issued) (map fst (strategies c))"
    and early: "\<forall>cl\<in>set (butlast issued). noMatch cl"
    and none: "fst ?run = Inr None \<longrightarrow>
                 map fst issued = map fst (strategies c) \<and> (\<forall>cl\<in>set issued. noMatch cl)"
    and stop: "fst ?run \<noteq> Inr None \<longrightarrow> issued \<noteq> [] \<and> \<not> noMatch (last issued)"
    and yld: "\<forall>r. fst ?run = Inr (Some r) \<longrightarrow>
        yield (last issued) = Some (handle r, variantId r) \<and>
        (fst (last issued), source r) = strategies c ! (length issued - 1)"
    by blast
  have some: "\<forall>r. fst ?run = Inr (Some r) \<longrightarrow>
         issued \<noteq> [] \<and> handle r \<noteq> [] \<and>
         yield (last issued) = Some (handle r, variantId r) \<and>
         (fst (last issued), source r) = strategies c ! (length issued - 1)"
    using stop yld yield_handle by fastforce
  have ord: "\<exists>j<i. fst (issued ! j) = (Q_VARIANT_BY_QUERY, ''sku:'' @ c)"
    if m: "isModel c" "isSKU c" and i: "i < length issued"
      and p: "fst (fst (issued ! i)) = Q_PRODUCTS_BY_QUERY" for i
  proof -
    from prefix_map_nth[OF pre i] have b: "i < length (strategies c)"
      and a: "fst (issued ! i) = fst (strategies c ! i)" by simp_all
    from strategies_model_sku[OF m b] a p obtain j where
      j: "j < i" "fst (strategies c ! j) = (Q_VARIANT_BY_QUERY, ''sku:'' @ c)" by auto
    from j(1) i have jl: "j < length issued" by simp
    from prefix_map_nth[OF pre jl] j(2)
    have "fst (issued ! j) = (Q_VARIANT_BY_QUERY, ''sku:'' @ c)"
      by simp
    with j(1) show ?thesis by blast
  qed
  have pre': "prefix (map fst issued)
        ((if isEAN c then [(Q_VARIANT_BY_QUERY, ''barcode:'' @ c)] else [])
         @ (if isSKU c then [(Q_VARIANT_BY_QUERY, ''sku:'' @ c)] else [])
         @ (if isModel c
            then [(Q_PRODUCTS_BY_QUERY, ''tag:'' @ [CHR 0x22] @ ''Model: '' @ c @ [CHR 0x22]),
                  (Q_PRODUCTS_BY_QUERY, c)]
            else [])
         @ [(Q_PRODUCTS_BY_QUERY, c)])"
    using pre unfolding requests_of_strategies .
  show ?thesis
    unfolding eq
    apply (rule conjI, rule refl)
    apply (rule exI[of _ issued])
    using tr pre' early none some ord by blast
qed

theorem resolveHandleFromCode_cascade_order_witness:
  "''6401234'' = trim ''6401234'' \<and> isModel ''6401234'' \<and> isSKU ''6401234'' \<and>
   snd (snd (resolveHandleFromCode demoGateway ''6401234'' (0, []))) =
     [((Q_VARIANT_BY_QUERY, ''sku:6401234''),
       Envelope \<lparr>errors = None, data = Some (ProductVariants [])\<rparr>),
      ((Q_PRODUCTS_BY_QUERY, ''tag:'' @ [CHR 0x22] @ ''Model: 6401234'' @ [CHR 0x22]),
       Envelope \<lparr>errors = None, data = Some (Products [])\<rparr>),
      ((Q_PRODUCTS_BY_QUERY, ''6401234''),
       Envelope \<lparr>errors = None,
                 data = Some (Products [\<lparr>p_handle = ''ball'', p_variants = []\<rparr>])\<rparr>)] \<and>
   fst (resolveHandleFromCode demoGateway ''6401234'' (0, [])) =
     Inr (Some \<lparr>handle = ''ball'', variantId = None, source = ''search:model''\<rparr>) \<and>
   resolveHandleFromCode demoGateway ''6401234'' (0, []) =
     cascade demoGateway (strategies ''6401234'') (0, [])"
proof -
  have t: "''6401234'' = trim ''6401234''" by code_simp
  have a: "isModel ''6401234'' \<and> isSKU ''6401234''" by code_simp
  have b: "snd (snd (resolveHandleFromCode demoGateway ''6401234'' (0, []))) =
     [((Q_VARIANT_BY_QUERY, ''sku:6401234''),
       Envelope \<lparr>errors = None, data = Some (ProductVariants [])\<rparr>),
      ((Q_PRODUCTS_BY_QUERY, ''tag:'' @ [CHR 0x22] @ ''Model: 6401234'' @ [CHR 0x22]),
       Envelope \<lparr>errors = None, data = Some (Products [])\<rparr>),
      ((Q_PRODUCTS_BY_QUERY, ''6401234''),
       Envelope \<lparr>errors = None,
                 data = Some (Products [\<lparr>p_handle = ''ball'', p_variants = []\<rparr>])\<rparr>)]"
    by code_simp
  have c: "fst (resolveHandleFromCode demoGateway ''6401234'' (0, [])) =
     Inr (Some \<lparr>handle = ''ball'', variantId = None, source = ''search:model''\<rparr>)"
    by code_simp
  from resolveHandleFromCode_cascade_order[OF t, of demoGateway "(0, [])"] t a b c
  show ?thesis by blast
qed

section \<open>Properties of the routes\<close>

lemma resolveFirst_step:
  "resolveFirst gw (cand # rest) w =
     (if (\<exists>e. fst (resolveHandleFromCode gw cand w) = Inl e) \<or>
         (\<exists>r. fst (resolveHandleFromCode gw cand w) = Inr (Some r) \<and> handle r \<noteq> [])
      then resolveHandleFromCode gw cand w
      else resolveFirst gw rest (snd (resolveHandleFromCode gw cand w)))"
  by (cases "resolveHandleFromCode gw cand w") (auto split: sum.splits option.splits)

text \<open>
  The calls of the loop over the candidates: when the loop ends with a result or with an
  exception, its last call did not return empty; when it ends without an exception, no call
  failed.
\<close>

lemma resolveFirst_run:
  "\<exists>issued.
     snd (snd (resolveFirst gw cands w)) = snd w @ issued \<and>
     (fst (resolveFirst gw cands w) \<noteq> Inr None \<longrightarrow>
        issued \<noteq> [] \<and> \<not> noMatch (last issued)) \<and>
     (\<forall>x. fst (resolveFirst gw cands w) = Inr x \<longrightarrow>
        (\<forall>cl\<in>set issued. \<not> failed (snd cl)))"
proof (induction cands arbitrary: w)
  case Nil
  then show ?case by simp
next
  case (Cons cand rest)
  let ?r = "resolveHandleFromCode gw cand w"
  from cascade_run[of gw "strategies (trim cand)" w] obtain i1 where
    a1: "snd (snd ?r) = snd w @ i1"
    and a2: "fst ?r \<noteq> Inr None \<longrightarrow> i1 \<noteq> [] \<and> \<not> noMatch (last i1)"
    and a3: "\<forall>x. fst ?r = Inr x \<longrightarrow> (\<forall>cl\<in>set i1. \<not> failed (snd cl))"
    unfolding resolve_cascade by blast
  show ?case
  proof (cases "(\<exists>e. fst ?r = Inl e) \<or> (\<exists>r. fst ?r = Inr (Some r) \<and> handle r \<noteq> [])")
    case True
    then have step: "resolveFirst gw (cand # rest) w = ?r"
      by (simp only: resolveFirst_step if_True)
    from True have "fst ?r \<noteq> Inr None" by auto
    with a1 a2 a3 show ?thesis unfolding step by blast
  next
    case False
    then have step: "resolveFirst gw (cand # rest) w = resolveFirst gw rest (snd ?r)"
      by (simp only: resolveFirst_step if_False)
    from False obtain x where x: "fst ?r = Inr x" by (cases "fst ?r") auto
    with a3 have nf: "\<forall>cl\<in>set i1. \<not> failed (snd cl)" by blast
    from Cons.IH[of "snd ?r"] obtain i2 where
      b1: "snd (snd (resolveFirst gw rest (snd ?r))) = snd (snd ?r) @ i2"
      and b2: "fst (resolveFirst gw rest (snd ?r)) \<noteq> Inr None \<longrightarrow>
                 i2 \<noteq> [] \<and> \<not> noMatch (last i2)"
      and b3: "\<forall>x. fst (resolveFirst gw rest (snd ?r)) = Inr x \<longrightarrow>
                 (\<forall>cl\<in>set i2. \<not> failed (snd cl))"
      by blast
    have c1: "snd (snd (resolveFirst gw (cand # rest) w)) = snd w @ (i1 @ i2)"
      unfolding step using a1 b1 by simp
    have c2: "fst (resolveFirst gw (cand # rest) w) \<noteq> Inr None \<longrightarrow>
                i1 @ i2 \<noteq> [] \<and> \<not> noMatch (last (i1 @ i2))"
      unfolding step using b2 by simp
    have c3: "\<forall>x. fst (resolveFirst gw (cand # rest) w) = Inr x \<longrightarrow>
                (\<forall>cl\<in>set (i1 @ i2). \<not> failed (snd cl))"
      unfolding step using b3 nf by auto
    from c1 c2 c3 show ?thesis by blast
  qed
qed

lemma extractCandidates_Inr: "\<exists>cs. extractCandidates newURL raw = Inr cs"
  by (simp add: extractCandidates_def Let_def split: option.splits)

lemma scanLookup_run:
  assumes "r \<noteq> []" and "extractCandidates newURL (Some r) = Inr cands"
  shows "scanLookup newURL gw (Some r) w =
     (case resolveFirst gw cands w of
        (Inl e, w1) \<Rightarrow> (Json 500 (ErrorJson ''lookup_failed''), w1)
      | (Inr (Some result), w1) \<Rightarrow>
          (Json 200 (LookupJson
             \<lparr>json_handle = Some (handle result),
              json_variantId = variantId result,
              json_source = source result,
              json_url = productUrl result,
              json_tried = cands\<rparr>), w1)
      | (Inr None, w1) \<Rightarrow>
          (Json 200 (LookupJson
             \<lparr>json_handle = None,
              json_variantId = None,
              json_source = ''fallback:search'',
              json_url = searchUrl r,
              json_tried = cands\<rparr>), w1))"
  using assms by (simp add: scanLookup_def)

lemma redirect_run:
  assumes "r \<noteq> []" and "extractCandidates newURL (Some r) = Inr cands"
  shows "redirect newURL gw (Some r) w =
     (case resolveFirst gw cands w of
        (Inl e, w1) \<Rightarrow> (Redirect 302 (searchUrl r), w1)
      | (Inr (Some result), w1) \<Rightarrow> (Redirect 302 (productUrl result), w1)
      | (Inr None, w1) \<Rightarrow> (Redirect 302 (searchUrl r), w1))"
  using assms by (simp add: redirect_def)

subsection \<open>The short variant id\<close>

lemma split_not_Nil: "split d s \<noteq> []"
  by (induction s) (auto split: list.splits)

lemma split_no_sep: "d \<notin> set s \<Longrightarrow> split d s = [s]"
  by (induction s) auto

lemma split_sep: "d \<in> set s \<Longrightarrow> \<exists>w v vs. split d s = w # v # vs"
proof (induction s)
  case Nil
  then show ?case by simp
next
  case (Cons c cs)
  show ?case
  proof (cases "c = d")
    case True
    with split_not_Nil[of d cs] show ?thesis by (cases "split d cs") auto
  next
    case False
    with Cons.prems have "d \<in> set cs" by simp
    from Cons.IH[OF this] False show ?thesis by auto
  qed
qed

lemma last_split: "last (split d s) = trailingSegment d s"
proof (induction s)
  case Nil
  then show ?case by (simp add: trailingSegment_def)
next
  case (Cons c cs)
  show ?case
  proof (cases "d \<in> set cs")
    case True
    from split_sep[OF True] obtain w v vs where s: "split d cs = w # v # vs" by blast
    have "last (split d (c # cs)) = last (split d cs)"
      by (simp add: s)
    moreover have "trailingSegment d (c # cs) = trailingSegment d cs"
      using True by (simp add: trailingSegment_def)
    ultimately show ?thesis using Cons.IH by simp
  next
    case False
    then have s: "split d cs = [cs]" by (rule split_no_sep)
    have t: "takeWhile (\<lambda>c. c \<noteq> d) (rev cs @ [c]) = rev cs @ takeWhile (\<lambda>c. c \<noteq> d) [c]"
      by (rule takeWhile_append2) (use False in auto)
    show ?thesis
      by (simp add: s trailingSegment_def t)
  qed
qed

lemma pop_split: "pop (split d s) = Some (trailingSegment d s)"
proof -
  have "pop xs = Some (last xs)" if "xs \<noteq> []" for xs :: "string list"
    using that by (cases xs rule: rev_cases) (simp_all add: pop_def)
  from this[OF split_not_Nil] show ?thesis by (simp add: last_split)
qed

lemma productUrl_eq:
  "productUrl res =
     (case variantId res of
        None \<Rightarrow> ''https://decathlon.re/products/'' @ handle res
      | Some vid \<Rightarrow>
          if trailingSegment (CHR ''/'') vid \<noteq> []
          then ''https://decathlon.re/products/'' @ handle res @ ''?variant=''
               @ trailingSegment (CHR ''/'') vid
          else ''https://decathlon.re/products/'' @ handle res)"
  by (simp add: productUrl_def pop_split split: option.splits)

lemma demo_extract_path:
  "extractCandidates demoURL (Some ''https://decathlon.re/p/3608459693135'')
   = Inr [''3608459693135'']"
  by code_simp

lemma demo_resolveFirst:
  "resolveFirst demoGateway [''3608459693135''] (0, []) =
     (Inr (Some \<lparr>handle = ''some-product'',
                 variantId = Some ''gid://shopify/ProductVariant/12345'',
                 source = ''barcode''\<rparr>),
      snd (resolveFirst demoGateway [''3608459693135''] (0, [])))"
  by code_simp




text \<open>
  C8, as the claim states it, fails in both directions. An envelope with the field
  \<^verbatim>\<open>errors: null\<close> contains an errors field, yet the call returns its data and the JSON
  route answers with the fallback; and on the body \<^verbatim>\<open>null\<close>, which is neither a transport
  failure nor an envelope with an errors field, the call raises a \<^verbatim>\<open>TypeError\<close>.
\<close>

theorem gateway_falsy_errors_counterexample:
  "fst (nullErrorsGateway 0 (Q_PRODUCTS_BY_QUERY, ''abc'')) =
     Envelope \<lparr>errors = Some JNull, data = Some (Products [])\<rparr> \<and>
   fst (adminGQL nullErrorsGateway Q_PRODUCTS_BY_QUERY ''abc'' (0, [])) =
     Inr (Some (Products [])) \<and>
   fst (scanLookup demoURL nullErrorsGateway (Some ''abc'') (0, [])) =
     Json 200 (LookupJson
       \<lparr>json_handle = None,
        json_variantId = None,
        json_source = ''fallback:search'',
        json_url = ''https://decathlon.re/search?q=abc'',
        json_tried = [''abc'']\<rparr>) \<and>
   fst (nullBodyGateway 0 (Q_PRODUCTS_BY_QUERY, ''abc'')) = NullBody \<and>
   fst (adminGQL nullBodyGateway Q_PRODUCTS_BY_QUERY ''abc'' (0, [])) = Inl TypeError"
  by code_simp

text \<open>
  C8, amended: \<^verbatim>\<open>adminGQL\<close> raises exactly when the transport failed, the body is
  \<^verbatim>\<open>null\<close>, or the envelope has an \<^verbatim>\<open>errors\<close> field that is truthy (present and none of
  \<^verbatim>\<open>null\<close>, \<^verbatim>\<open>false\<close>, \<^verbatim>\<open>0\<close> and the empty string). When a call of a route failed so, the
  JSON route answers with status 500 and \<^verbatim>\<open>lookup_failed\<close>, and the redirect route redirects
  to the search URL of the raw input.
\<close>

theorem gateway_failure_handling:
  "((\<exists>e. fst (adminGQL gw d qv w) = Inl e) \<longleftrightarrow>
      (fst (gw (fst w) (d, qv)) = Rejected \<or>
       fst (gw (fst w) (d, qv)) = NullBody \<or>
       (\<exists>j v. fst (gw (fst w) (d, qv)) = Envelope j \<and> errors j = Some v \<and>
              v \<noteq> JNull \<and> v \<noteq> JBool False \<and> v \<noteq> JNum 0 \<and> v \<noteq> JStr []))) \<and>
   ((\<exists>cl\<in>set (snd (snd (scanLookup newURL gw raw (g, [])))). failed (snd cl)) \<longrightarrow>
      fst (scanLookup newURL gw raw (g, [])) = Json 500 (ErrorJson ''lookup_failed'')) \<and>
   ((\<exists>cl\<in>set (snd (snd (redirect newURL gw raw (g, [])))). failed (snd cl)) \<longrightarrow>
      (\<exists>r. raw = Some r \<and>
           fst (redirect newURL gw raw (g, [])) =
             Redirect 302 (''https://decathlon.re/search?q='' @ encodeURIComponent (trim r))))"
proof -
  have raises: "(\<exists>e. fst (adminGQL gw d qv w) = Inl e) \<longleftrightarrow>
      (fst (gw (fst w) (d, qv)) = Rejected \<or>
       fst (gw (fst w) (d, qv)) = NullBody \<or>
       (\<exists>j v. fst (gw (fst w) (d, qv)) = Envelope j \<and> errors j = Some v \<and>
              v \<noteq> JNull \<and> v \<noteq> JBool False \<and> v \<noteq> JNum 0 \<and> v \<noteq> JStr []))"
    by (cases "fst (gw (fst w) (d, qv))")
       (auto simp: adminGQL_result truthy_iff split: option.splits)
  have quiet: "snd (snd (scanLookup newURL gw raw (g, []))) = [] \<and>
               snd (snd (redirect newURL gw raw (g, []))) = []"
    if "raw = None \<or> raw = Some []"
    using that by (auto simp: scanLookup_def redirect_def)
  have run: "(\<exists>cl\<in>set (snd (snd (scanLookup newURL gw raw (g, [])))). failed (snd cl)) \<longrightarrow>
      fst (scanLookup newURL gw raw (g, [])) = Json 500 (ErrorJson ''lookup_failed'')"
    and run2: "(\<exists>cl\<in>set (snd (snd (redirect newURL gw raw (g, [])))). failed (snd cl)) \<longrightarrow>
      fst (redirect newURL gw raw (g, [])) = Redirect 302 (searchUrl r)"
    if raw: "raw = Some r" "r \<noteq> []" for r
  proof -
    from extractCandidates_Inr obtain cands where
      c: "extractCandidates newURL (Some r) = Inr cands" by blast
    let ?rf = "resolveFirst gw cands (g, [])"
    from resolveFirst_run[of gw cands "(g, [])"] have
      nf: "\<forall>x. fst ?rf = Inr x \<longrightarrow> (\<forall>cl\<in>set (snd (snd ?rf)). \<not> failed (snd cl))"
      by auto
    show "(\<exists>cl\<in>set (snd (snd (scanLookup newURL gw raw (g, [])))). failed (snd cl)) \<longrightarrow>
      fst (scanLookup newURL gw raw (g, [])) = Json 500 (ErrorJson ''lookup_failed'')"
      using nf unfolding raw(1) scanLookup_run[OF raw(2) c]
      by (cases ?rf) (auto split: sum.splits option.splits)
    show "(\<exists>cl\<in>set (snd (snd (redirect newURL gw raw (g, [])))). failed (snd cl)) \<longrightarrow>
      fst (redirect newURL gw raw (g, [])) = Redirect 302 (searchUrl r)"
      using nf unfolding raw(1) redirect_run[OF raw(2) c]
      by (cases ?rf) (auto split: sum.splits option.splits)
  qed
  show ?thesis
  proof (cases "raw = None \<or> raw = Some []")
    case True
    from quiet[OF True] raises show ?thesis by simp
  next
    case False
    then obtain r where r: "raw = Some r" "r \<noteq> []" by (cases raw) auto
    from run[OF r] run2[OF r] r(1) raises show ?thesis
      unfolding searchUrl_def by blast
  qed
qed

theorem gateway_failure_handling_witness:
  "fst (errorGateway 0 (Q_PRODUCTS_BY_QUERY, ''abc'')) =
     Envelope \<lparr>errors = Some (JArr [JObj [(''message'', JStr ''Throttled'')]]), data = None\<rparr> \<and>
   fst (adminGQL errorGateway Q_PRODUCTS_BY_QUERY ''abc'' (0, []))
     = Inl (UpstreamErrors (JArr [JObj [(''message'', JStr ''Throttled'')]])) \<and>
   list_ex (\<lambda>cl. failed (snd cl))
     (snd (snd (scanLookup demoURL errorGateway (Some ''abc'') (0, [])))) \<and>
   fst (scanLookup demoURL errorGateway (Some ''abc'') (0, []))
     = Json 500 (ErrorJson ''lookup_failed'') \<and>
   list_ex (\<lambda>cl. failed (snd cl))
     (snd (snd (redirect demoURL errorGateway (Some ''abc'') (0, [])))) \<and>
   fst (redirect demoURL errorGateway (Some ''abc'') (0, []))
     = Redirect 302 ''https://decathlon.re/search?q=abc''"
proof -
  have a: "fst (errorGateway 0 (Q_PRODUCTS_BY_QUERY, ''abc'')) =
     Envelope \<lparr>errors = Some (JArr [JObj [(''message'', JStr ''Throttled'')]]), data = None\<rparr>"
    by code_simp
  have b: "fst (adminGQL errorGateway Q_PRODUCTS_BY_QUERY ''abc'' (0, []))
             = Inl (UpstreamErrors (JArr [JObj [(''message'', JStr ''Throttled'')]]))"
    by code_simp
  have c: "list_ex (\<lambda>cl. failed (snd cl))
             (snd (snd (scanLookup demoURL errorGateway (Some ''abc'') (0, []))))"
    by code_simp
  have d: "list_ex (\<lambda>cl. failed (snd cl))
             (snd (snd (redirect demoURL errorGateway (Some ''abc'') (0, []))))"
    by code_simp
  have u: "''https://decathlon.re/search?q='' @ encodeURIComponent (trim ''abc'')
             = ''https://decathlon.re/search?q=abc''" by code_simp
  from gateway_failure_handling[of errorGateway Q_PRODUCTS_BY_QUERY "''abc''" "(0, [])"
      demoURL "Some ''abc''" 0]
    a b c d u show ?thesis by (auto simp: list_ex_iff)
qed

text \<open>
  C9, as the claim states it, fails on a match that carries no variant id: the product of the
  sample catalog has no variants, and its URL has no \<^verbatim>\<open>?variant=\<close> part.
\<close>

theorem productUrl_without_variant_counterexample:
  "fst (scanLookup demoURL demoGateway (Some ''6401234'') (0, [])) =
     Json 200 (LookupJson
       \<lparr>json_handle = Some ''ball'',
        json_variantId = None,
        json_source = ''search:model'',
        json_url = ''https://decathlon.re/products/ball'',
        json_tried = [''6401234'']\<rparr>)"
  by code_simp

text \<open>
  C9, amended: on a successful resolution both routes answer with the product URL of the
  result. It is \<^verbatim>\<open><base>/products/<handle>?variant=<short>\<close>, with the trailing segment of the
  variant id as \<^verbatim>\<open><short>\<close>, when the result has a variant id whose trailing segment is not
  empty, and \<^verbatim>\<open><base>/products/<handle>\<close> otherwise.
\<close>

theorem productUrl_construction:
  assumes "r \<noteq> []" and "extractCandidates newURL (Some r) = Inr cands"
    and "resolveFirst gw cands w = (Inr (Some res), w1)"
  shows "fst (scanLookup newURL gw (Some r) w) =
           Json 200 (LookupJson
             \<lparr>json_handle = Some (handle res),
              json_variantId = variantId res,
              json_source = source res,
              json_url = productUrl res,
              json_tried = cands\<rparr>) \<and>
         fst (redirect newURL gw (Some r) w) = Redirect 302 (productUrl res) \<and>
         productUrl res =
           (case variantId res of
              None \<Rightarrow> ''https://decathlon.re/products/'' @ handle res
            | Some vid \<Rightarrow>
                if trailingSegment (CHR ''/'') vid \<noteq> []
                then ''https://decathlon.re/products/'' @ handle res @ ''?variant=''
                     @ trailingSegment (CHR ''/'') vid
                else ''https://decathlon.re/products/'' @ handle res)"
  using productUrl_eq[of res]
  by (simp add: scanLookup_run[OF assms(1,2)] redirect_run[OF assms(1,2)] assms(3))

theorem productUrl_construction_witness:
  "''https://decathlon.re/p/3608459693135'' \<noteq> [] \<and>
   extractCandidates demoURL (Some ''https://decathlon.re/p/3608459693135'')
     = Inr [''3608459693135''] \<and>
   fst (resolveFirst demoGateway [''3608459693135''] (0, [])) =
     Inr (Some \<lparr>handle = ''some-product'',
                 variantId = Some ''gid://shopify/ProductVariant/12345'',
                 source = ''barcode''\<rparr>) \<and>
   fst (redirect demoURL demoGateway (Some ''https://decathlon.re/p/3608459693135'') (0, [])) =
     Redirect 302 ''https://decathlon.re/products/some-product?variant=12345'' \<and>
   fst (scanLookup demoURL demoGateway (Some ''https://decathlon.re/p/3608459693135'') (0, [])) =
     Json 200 (LookupJson
       \<lparr>json_handle = Some ''some-product'',
        json_variantId = Some ''gid://shopify/ProductVariant/12345'',
        json_source = ''barcode'',
        json_url = ''https://decathlon.re/products/some-product?variant=12345'',
        json_tried = [''3608459693135'']\<rparr>)"
proof -
  have h1: "''https://decathlon.re/p/3608459693135'' \<noteq> []" by simp
  have u: "productUrl \<lparr>handle = ''some-product'',
                 variantId = Some ''gid://shopify/ProductVariant/12345'',
                 source = ''barcode''\<rparr>
           = ''https://decathlon.re/products/some-product?variant=12345''"
    by code_simp
  have f: "fst (resolveFirst demoGateway [''3608459693135''] (0, [])) =
     Inr (Some \<lparr>handle = ''some-product'',
                 variantId = Some ''gid://shopify/ProductVariant/12345'',
                 source = ''barcode''\<rparr>)" by code_simp
  from productUrl_construction[OF h1 demo_extract_path demo_resolveFirst] u f demo_extract_path
  show ?thesis by simp
qed

end
